theory Spec2Isabelle
  imports Main
begin

section \<open>The seat table of app.py\<close>

text \<open>
  The column \<open>estado\<close> of the table holds one of the three strings
  \<open>'DISPONIBLE'\<close>, \<open>'RESERVADO'\<close>, \<open>'VENDIDO'\<close>; the program writes no other value.
  The spec calls them AVAILABLE, RESERVED and SOLD.
\<close>

datatype estado = DISPONIBLE | RESERVADO | VENDIDO

text \<open>
  A row of the model \<open>Boleto\<close>. The primary key \<open>id\<close> is named \<open>id_boleto\<close> here.
  \<open>tiempo_limite\<close> is a UNIX time stamp in seconds, a Python integer.
\<close>

record boleto =
  id_boleto :: int
  asiento :: string
  estado :: estado
  tiempo_limite :: int

text \<open>The table, in the order in which \<open>Boleto.query.all()\<close> returns the rows.\<close>

type_synonym tabla = "boleto list"

definition RESERVA_DURACION_SEGUNDOS :: int where
  "RESERVA_DURACION_SEGUNDOS = 30"

text \<open>\<open>Boleto.to_dict\<close>: the keys \<open>id\<close>, \<open>asiento\<close> and \<open>estado\<close>, in this order.\<close>

type_synonym dict_boleto = "int \<times> string \<times> estado"

definition to_dict :: "boleto \<Rightarrow> dict_boleto" where
  "to_dict b = (id_boleto b, asiento b, estado b)"

subsection \<open>Initialisation: two hundred rows A1 .. A200\<close>

definition digito :: "nat \<Rightarrow> char" where
  "digito d = ''0123456789'' ! d"

function str_nat :: "nat \<Rightarrow> string" where
  "str_nat n = (if n < 10 then [digito n] else str_nat (n div 10) @ [digito (n mod 10)])"
  by pat_completeness auto
termination
  by (relation "measure (\<lambda>n. n)") auto

definition boleto_nuevo :: "nat \<Rightarrow> boleto" where
  "boleto_nuevo i =
     \<lparr>id_boleto = int i, asiento = ''A'' @ str_nat i, estado = DISPONIBLE, tiempo_limite = 0\<rparr>"

definition inventario_inicial :: tabla where
  "inventario_inicial = map boleto_nuevo [1..<201]"

subsection \<open>Releasing expired reservations\<close>

text \<open>
  The filter of the query in \<open>liberar_reservas_expiradas\<close>:
  \<open>Boleto.estado == 'RESERVADO'\<close> and \<open>Boleto.tiempo_limite < ahora\<close>.
\<close>

definition expirado :: "int \<Rightarrow> boleto \<Rightarrow> bool" where
  "expirado ahora b \<longleftrightarrow> estado b = RESERVADO \<and> tiempo_limite b < ahora"

text \<open>The body of the loop over the rows found.\<close>

definition liberar :: "boleto \<Rightarrow> boleto" where
  "liberar b = b\<lparr>estado := DISPONIBLE, tiempo_limite := 0\<rparr>"

text \<open>
  \<open>liberar_reservas_expiradas\<close>, with the value \<open>ahora\<close> that \<open>int(time.time())\<close> returned
  as a parameter. The rows of the query result are the rows of the table, so
  the loop updates them in place.
\<close>

definition liberar_reservas_expiradas :: "int \<Rightarrow> tabla \<Rightarrow> tabla" where
  "liberar_reservas_expiradas ahora tbl =
     map (\<lambda>b. if expirado ahora b then liberar b else b) tbl"

subsection \<open>The three endpoints\<close>

text \<open>
  The answers of the endpoints: the list of dictionaries of \<open>get_boletos\<close>, status 200
  with the new \<open>estado\<close>, status 409 with the current \<open>estado\<close>, and status 404.
  The storage layer is taken to be reliable: \<open>db.session.commit()\<close> returns, so the
  \<open>except\<close> branches (status 500, after a rollback) are not entered.
\<close>

datatype respuesta =
    Listado "dict_boleto list"
  | Exito estado
  | Conflicto estado
  | NoEncontrado

fun codigo :: "respuesta \<Rightarrow> nat" where
  "codigo (Listado ds) = 200"
| "codigo (Exito e) = 200"
| "codigo (Conflicto e) = 409"
| "codigo NoEncontrado = 404"

text \<open>\<open>Boleto.query.filter_by(asiento=asiento_nombre).first()\<close>\<close>

definition buscar :: "string \<Rightarrow> tabla \<Rightarrow> boleto option" where
  "buscar asiento_nombre tbl = find (\<lambda>b. asiento b = asiento_nombre) tbl"

text \<open>
  Assigning to the attributes of the row that \<open>first()\<close> returned and committing:
  the first row with this name is replaced, the others stay.
\<close>

fun actualizar :: "string \<Rightarrow> (boleto \<Rightarrow> boleto) \<Rightarrow> tabla \<Rightarrow> tabla" where
  "actualizar asiento_nombre f [] = []"
| "actualizar asiento_nombre f (b # bs) =
     (if asiento b = asiento_nombre then f b # bs
      else b # actualizar asiento_nombre f bs)"

definition get_boletos :: "int \<Rightarrow> tabla \<Rightarrow> respuesta \<times> tabla" where
  "get_boletos ahora tbl =
     (let tbl1 = liberar_reservas_expiradas ahora tbl
      in (Listado (map to_dict tbl1), tbl1))"

text \<open>
  \<open>reservar_boleto\<close> reads the clock twice: \<open>ahora\<close> is the value read inside
  \<open>liberar_reservas_expiradas\<close>, \<open>ahora2\<close> the one read when the limit is computed.
\<close>

definition reservar_boleto :: "string \<Rightarrow> int \<Rightarrow> int \<Rightarrow> tabla \<Rightarrow> respuesta \<times> tabla" where
  "reservar_boleto asiento_nombre ahora ahora2 tbl =
     (let tbl1 = liberar_reservas_expiradas ahora tbl
      in case buscar asiento_nombre tbl1 of
           None \<Rightarrow> (NoEncontrado, tbl1)
         | Some boleto \<Rightarrow>
             if estado boleto = DISPONIBLE then
               (Exito RESERVADO,
                actualizar asiento_nombre
                  (\<lambda>b. b\<lparr>estado := RESERVADO,
                          tiempo_limite := ahora2 + RESERVA_DURACION_SEGUNDOS\<rparr>) tbl1)
             else (Conflicto (estado boleto), tbl1))"

text \<open>\<open>comprar_boleto\<close> never reads the clock and never calls the release.\<close>

definition comprar_boleto :: "string \<Rightarrow> tabla \<Rightarrow> respuesta \<times> tabla" where
  "comprar_boleto asiento_nombre tbl =
     (case buscar asiento_nombre tbl of
        None \<Rightarrow> (NoEncontrado, tbl)
      | Some boleto \<Rightarrow>
          if estado boleto = RESERVADO then
            (Exito VENDIDO,
             actualizar asiento_nombre
               (\<lambda>b. b\<lparr>estado := VENDIDO, tiempo_limite := 0\<rparr>) tbl)
          else (Conflicto (estado boleto), tbl))"

subsection \<open>Requests over time\<close>

text \<open>
  A request together with the clock values seen while it is served: the time of
  the release for \<open>Listar\<close>, both readings for \<open>Reservar\<close>, and the time of arrival
  for \<open>Comprar\<close> (which the endpoint does not look at).
\<close>

datatype evento =
    Listar int
  | Reservar string int int
  | Comprar string int

fun atender :: "evento \<Rightarrow> tabla \<Rightarrow> respuesta \<times> tabla" where
  "atender (Listar ahora) tbl = get_boletos ahora tbl"
| "atender (Reservar a ahora ahora2) tbl = reservar_boleto a ahora ahora2 tbl"
| "atender (Comprar a ahora) tbl = comprar_boleto a tbl"

fun ejecutar :: "evento list \<Rightarrow> tabla \<Rightarrow> respuesta list \<times> tabla" where
  "ejecutar [] tbl = ([], tbl)"
| "ejecutar (e # es) tbl =
     (case atender e tbl of (r, tbl1) \<Rightarrow>
        (case ejecutar es tbl1 of (rs, tbl2) \<Rightarrow> (r # rs, tbl2)))"

text \<open>The clock value at which a request is served.\<close>

fun hora :: "evento \<Rightarrow> int" where
  "hora (Listar ahora) = ahora"
| "hora (Reservar a ahora ahora2) = ahora"
| "hora (Comprar a ahora) = ahora"

subsection \<open>A small table for concrete runs\<close>

definition tabla_ej :: tabla where
  "tabla_ej =
     [\<lparr>id_boleto = 1, asiento = ''A1'', estado = RESERVADO, tiempo_limite = 40\<rparr>,
      \<lparr>id_boleto = 2, asiento = ''A2'', estado = RESERVADO, tiempo_limite = 5\<rparr>,
      \<lparr>id_boleto = 3, asiento = ''A3'', estado = VENDIDO, tiempo_limite = 0\<rparr>,
      \<lparr>id_boleto = 4, asiento = ''A4'', estado = DISPONIBLE, tiempo_limite = 0\<rparr>]"

section \<open>Basic facts\<close>

lemma length_liberar_reservas [simp]:
  "length (liberar_reservas_expiradas ahora tbl) = length tbl"
  by (simp add: liberar_reservas_expiradas_def)

lemma nth_liberar_reservas:
  "i < length tbl \<Longrightarrow>
   liberar_reservas_expiradas ahora tbl ! i =
     (if expirado ahora (tbl ! i) then liberar (tbl ! i) else tbl ! i)"
  by (simp add: liberar_reservas_expiradas_def)

lemma not_expirado_liberar [simp]: "\<not> expirado ahora (liberar b)"
  by (simp add: expirado_def liberar_def)

lemma liberar_reservas_idem:
  "liberar_reservas_expiradas ahora (liberar_reservas_expiradas ahora tbl) =
   liberar_reservas_expiradas ahora tbl"
  by (simp add: liberar_reservas_expiradas_def)

lemma length_actualizar [simp]: "length (actualizar a f tbl) = length tbl"
  by (induction tbl) simp_all

lemma nth_actualizar_otro:
  "i < length tbl \<Longrightarrow> asiento (tbl ! i) \<noteq> a \<Longrightarrow> actualizar a f tbl ! i = tbl ! i"
proof (induction tbl arbitrary: i)
  case Nil
  then show ?case by simp
next
  case (Cons b bs)
  then show ?case by (cases i) auto
qed

lemma buscar_Some_asiento: "buscar a tbl = Some b \<Longrightarrow> asiento b = a"
  unfolding buscar_def by (induction tbl) (auto split: if_splits)

lemma buscar_None_iff: "buscar a tbl = None \<longleftrightarrow> a \<notin> asiento ` set tbl"
  unfolding buscar_def by (induction tbl) auto

lemma buscar_actualizar:
  "buscar a tbl = Some b \<Longrightarrow> asiento (f b) = a \<Longrightarrow>
   buscar a (actualizar a f tbl) = Some (f b)"
  unfolding buscar_def by (induction tbl) (auto split: if_splits)

lemma buscar_actualizar_otro:
  "a' \<noteq> a \<Longrightarrow> (\<And>b. asiento (f b) = asiento b) \<Longrightarrow>
   buscar a' (actualizar a f tbl) = buscar a' tbl"
  unfolding buscar_def by (induction tbl) (auto split: if_splits)

lemma asiento_liberar [simp]: "asiento (liberar b) = asiento b"
  by (simp add: liberar_def)

lemma buscar_liberar_reservas:
  "buscar a (liberar_reservas_expiradas ahora tbl) =
     map_option (\<lambda>b. if expirado ahora b then liberar b else b) (buscar a tbl)"
  unfolding buscar_def liberar_reservas_expiradas_def by (induction tbl) auto

lemma set_actualizar:
  "b' \<in> set (actualizar a f tbl) \<Longrightarrow> b' \<in> set tbl \<or> (\<exists>b\<in>set tbl. asiento b = a \<and> b' = f b)"
  by (induction tbl) (auto split: if_splits)

lemma reservar_liberado:
  "reservar_boleto a ahora ahora2 (liberar_reservas_expiradas ahora tbl) =
   reservar_boleto a ahora ahora2 tbl"
  by (simp add: reservar_boleto_def liberar_reservas_idem)

lemma get_boletos_liberado:
  "get_boletos ahora (liberar_reservas_expiradas ahora tbl) = get_boletos ahora tbl"
  by (simp add: get_boletos_def liberar_reservas_idem)

lemma length_fst_ejecutar [simp]: "length (fst (ejecutar evs tbl)) = length evs"
proof (induction evs arbitrary: tbl)
  case Nil
  then show ?case by simp
next
  case (Cons e es)
  obtain r t1 where a: "atender e tbl = (r, t1)" by (cases "atender e tbl")
  obtain rs t2 where b: "ejecutar es t1 = (rs, t2)" by (cases "ejecutar es t1")
  from Cons.IH [of t1] b have "length rs = length es" by simp
  with a b show ?case by simp
qed

text \<open>
  A property of tables that every admitted request keeps is kept by a run, and each
  answer of the run is as the single step gives it.
\<close>

lemma ejecutar_invariante:
  assumes step: "\<And>e t. P t \<Longrightarrow> Q e \<Longrightarrow> P (snd (atender e t)) \<and> R e (fst (atender e t))"
    and "P tbl" and "\<forall>e\<in>set evs. Q e"
  shows "P (snd (ejecutar evs tbl))
       \<and> (\<forall>i<length evs. R (evs ! i) (fst (ejecutar evs tbl) ! i))"
  using assms(2,3)
proof (induction evs arbitrary: tbl)
  case Nil
  then show ?case by simp
next
  case (Cons e es)
  obtain r t1 where a: "atender e tbl = (r, t1)" by (cases "atender e tbl")
  obtain rs t2 where b: "ejecutar es t1 = (rs, t2)" by (cases "ejecutar es t1")
  from step [of tbl e] Cons.prems a have p1: "P t1" and r1: "R e r" by auto
  from Cons.IH [of t1] p1 Cons.prems b
  have ih: "P t2" "\<forall>i<length es. R (es ! i) (rs ! i)" by auto
  show ?case
  proof (intro conjI allI impI)
    show "P (snd (ejecutar (e # es) tbl))" using a b ih by simp
    fix i assume "i < length (e # es)"
    then show "R ((e # es) ! i) (fst (ejecutar (e # es) tbl) ! i)"
      using a b ih r1 by (cases i) auto
  qed
qed

lemma atender_reservado:
  assumes s: "buscar a tbl = Some b" and r: "estado b = RESERVADO"
    and h: "hora e \<le> tiempo_limite b" and c: "\<forall>u. e \<noteq> Comprar a u"
  shows "buscar a (snd (atender e tbl)) = Some b
       \<and> ((\<exists>u u2. e = Reservar a u u2) \<longrightarrow> fst (atender e tbl) = Conflicto RESERVADO)"
proof (cases e)
  case (Listar u)
  with s r h show ?thesis
    by (simp add: get_boletos_def Let_def buscar_liberar_reservas expirado_def)
next
  case (Reservar a' u u2)
  with s r h have l: "buscar a (liberar_reservas_expiradas u tbl) = Some b"
    by (simp add: buscar_liberar_reservas expirado_def)
  show ?thesis
  proof (cases "a' = a")
    case True
    with Reservar l r show ?thesis by (simp add: reservar_boleto_def)
  next
    case False
    then have "a \<noteq> a'" by simp
    with Reservar l show ?thesis
      by (auto simp: reservar_boleto_def Let_def buscar_actualizar_otro split: option.splits)
  qed
next
  case (Comprar a' u)
  with c have "a \<noteq> a'" by auto
  with Comprar s show ?thesis
    by (auto simp: comprar_boleto_def buscar_actualizar_otro split: option.splits)
qed

lemma reservar_disponible:
  assumes s: "buscar a tbl = Some b" and d: "estado b = DISPONIBLE"
  shows "fst (reservar_boleto a ahora ahora2 tbl) = Exito RESERVADO"
    and "buscar a (snd (reservar_boleto a ahora ahora2 tbl)) =
           Some (b\<lparr>estado := RESERVADO, tiempo_limite := ahora2 + 30\<rparr>)"
proof -
  from s d have l: "buscar a (liberar_reservas_expiradas ahora tbl) = Some b"
    by (simp add: buscar_liberar_reservas expirado_def)
  from s have n: "asiento b = a" by (rule buscar_Some_asiento)
  from l d show "fst (reservar_boleto a ahora ahora2 tbl) = Exito RESERVADO"
    by (simp add: reservar_boleto_def)
  from l d n show "buscar a (snd (reservar_boleto a ahora ahora2 tbl)) =
           Some (b\<lparr>estado := RESERVADO, tiempo_limite := ahora2 + 30\<rparr>)"
    by (simp add: reservar_boleto_def buscar_actualizar RESERVA_DURACION_SEGUNDOS_def)
qed

lemma nth_actualizar_otro_estado:
  "buscar a tbl = Some b \<Longrightarrow> i < length tbl \<Longrightarrow> estado (tbl ! i) \<noteq> estado b \<Longrightarrow>
   actualizar a f tbl ! i = tbl ! i"
proof (induction tbl arbitrary: i)
  case Nil
  then show ?case by simp
next
  case (Cons c cs)
  then show ?case
    by (cases i) (auto simp: buscar_def split: if_splits)
qed

lemma atender_fila_vendida:
  assumes "i < length tbl" and "estado (tbl ! i) = VENDIDO"
  shows "length (snd (atender e tbl)) = length tbl \<and> snd (atender e tbl) ! i = tbl ! i"
proof (cases e)
  case (Listar u)
  with assms show ?thesis
    by (simp add: get_boletos_def Let_def nth_liberar_reservas expirado_def)
next
  case (Reservar a u u2)
  let ?t = "liberar_reservas_expiradas u tbl"
  from assms have k: "i < length ?t" "?t ! i = tbl ! i"
    by (simp_all add: nth_liberar_reservas expirado_def)
  show ?thesis
  proof (cases "buscar a ?t")
    case None
    with Reservar k show ?thesis by (simp add: reservar_boleto_def)
  next
    case (Some b)
    show ?thesis
    proof (cases "estado b = DISPONIBLE")
      case True
      with Some k assms have "actualizar a
          (\<lambda>b. b\<lparr>estado := RESERVADO, tiempo_limite := u2 + RESERVA_DURACION_SEGUNDOS\<rparr>) ?t ! i = ?t ! i"
        by (intro nth_actualizar_otro_estado [OF Some]) simp_all
      with Reservar Some True k show ?thesis by (simp add: reservar_boleto_def)
    next
      case False
      with Reservar Some k show ?thesis by (simp add: reservar_boleto_def)
    qed
  qed
next
  case (Comprar a u)
  show ?thesis
  proof (cases "buscar a tbl")
    case None
    with Comprar show ?thesis by (simp add: comprar_boleto_def)
  next
    case (Some b)
    show ?thesis
    proof (cases "estado b = RESERVADO")
      case True
      with Some assms have "actualizar a
          (\<lambda>b. b\<lparr>estado := VENDIDO, tiempo_limite := 0\<rparr>) tbl ! i = tbl ! i"
        by (intro nth_actualizar_otro_estado [OF Some]) simp_all
      with Comprar Some True show ?thesis by (simp add: comprar_boleto_def)
    next
      case False
      with Comprar Some show ?thesis by (simp add: comprar_boleto_def)
    qed
  qed
qed

lemma atender_vendido:
  assumes s: "buscar a tbl = Some b" and v: "estado b = VENDIDO"
  shows "buscar a (snd (atender e tbl)) = Some b
       \<and> ((\<exists>u u2. e = Reservar a u u2) \<or> (\<exists>u. e = Comprar a u) \<longrightarrow>
            fst (atender e tbl) = Conflicto VENDIDO)"
proof (cases e)
  case (Listar u)
  with s v show ?thesis
    by (simp add: get_boletos_def Let_def buscar_liberar_reservas expirado_def)
next
  case (Reservar a' u u2)
  with s v have l: "buscar a (liberar_reservas_expiradas u tbl) = Some b"
    by (simp add: buscar_liberar_reservas expirado_def)
  show ?thesis
  proof (cases "a' = a")
    case True
    with Reservar l v show ?thesis by (simp add: reservar_boleto_def)
  next
    case False
    then have "a \<noteq> a'" by simp
    with Reservar l show ?thesis
      by (auto simp: reservar_boleto_def Let_def buscar_actualizar_otro split: option.splits)
  qed
next
  case (Comprar a' u)
  show ?thesis
  proof (cases "a' = a")
    case True
    with Comprar s v show ?thesis by (simp add: comprar_boleto_def)
  next
    case False
    then have "a \<noteq> a'" by simp
    with Comprar s show ?thesis
      by (auto simp: comprar_boleto_def buscar_actualizar_otro split: option.splits)
  qed
qed

lemma comprar_exito:
  assumes "fst (comprar_boleto a tbl) = Exito s"
  shows "s = VENDIDO \<and> (\<exists>b. buscar a (snd (comprar_boleto a tbl)) = Some b
           \<and> estado b = VENDIDO \<and> tiempo_limite b = 0)"
proof (cases "buscar a tbl")
  case None
  with assms show ?thesis by (simp add: comprar_boleto_def)
next
  case (Some b)
  from Some have n: "asiento b = a" by (rule buscar_Some_asiento)
  from assms Some have r: "estado b = RESERVADO"
    by (simp add: comprar_boleto_def split: if_splits)
  from Some n have "buscar a (actualizar a (\<lambda>b. b\<lparr>estado := VENDIDO, tiempo_limite := 0\<rparr>) tbl)
      = Some (b\<lparr>estado := VENDIDO, tiempo_limite := 0\<rparr>)"
    by (simp add: buscar_actualizar)
  with assms Some r show ?thesis by (simp add: comprar_boleto_def)
qed

lemma atender_limite:
  assumes inv: "\<forall>b\<in>set tbl. (estado b = RESERVADO \<longleftrightarrow> 0 < tiempo_limite b)
                  \<and> (estado b \<noteq> RESERVADO \<longrightarrow> tiempo_limite b = 0)"
    and clk: "\<forall>a u u2. e = Reservar a u u2 \<longrightarrow> 0 \<le> u2"
  shows "\<forall>b\<in>set (snd (atender e tbl)). (estado b = RESERVADO \<longleftrightarrow> 0 < tiempo_limite b)
                  \<and> (estado b \<noteq> RESERVADO \<longrightarrow> tiempo_limite b = 0)"
proof -
  let ?I = "\<lambda>b. (estado b = RESERVADO \<longleftrightarrow> 0 < tiempo_limite b)
                  \<and> (estado b \<noteq> RESERVADO \<longrightarrow> tiempo_limite b = 0)"
  have lib: "\<forall>b\<in>set (liberar_reservas_expiradas u tbl). ?I b" for u
    using inv by (auto simp: liberar_reservas_expiradas_def liberar_def)
  show ?thesis
  proof (cases e)
    case (Listar u)
    with lib [of u] show ?thesis by (simp add: get_boletos_def Let_def)
  next
    case (Reservar a u u2)
    with clk have p: "0 \<le> u2" by simp
    let ?t = "liberar_reservas_expiradas u tbl"
    let ?f = "\<lambda>b. b\<lparr>estado := RESERVADO, tiempo_limite := u2 + RESERVA_DURACION_SEGUNDOS\<rparr>"
    have "?I b'" if "b' \<in> set (actualizar a ?f ?t)" for b'
      using set_actualizar [OF that] lib [of u] p
      by (auto simp: RESERVA_DURACION_SEGUNDOS_def)
    with Reservar lib [of u] show ?thesis
      by (simp add: reservar_boleto_def Let_def split: option.splits)
  next
    case (Comprar a u)
    let ?f = "\<lambda>b. b\<lparr>estado := VENDIDO, tiempo_limite := 0\<rparr>"
    have "?I b'" if "b' \<in> set (actualizar a ?f tbl)" for b'
      using set_actualizar [OF that] inv by auto
    with Comprar inv show ?thesis
      by (simp add: comprar_boleto_def split: option.splits)
  qed
qed

lemma inventario_inicial_limite:
  assumes "b \<in> set inventario_inicial"
  shows "estado b = DISPONIBLE \<and> tiempo_limite b = 0"
proof -
  from assms obtain i where "b = boleto_nuevo i"
    unfolding inventario_inicial_def set_map by blast
  then show ?thesis by (simp add: boleto_nuevo_def)
qed

lemma ejecutar_limite:
  assumes inv: "\<forall>b\<in>set tbl. (estado b = RESERVADO \<longleftrightarrow> 0 < tiempo_limite b)
                  \<and> (estado b \<noteq> RESERVADO \<longrightarrow> tiempo_limite b = 0)"
    and clk: "\<forall>a u u2. Reservar a u u2 \<in> set evs \<longrightarrow> 0 \<le> u2"
  shows "\<forall>b\<in>set (snd (ejecutar evs tbl)). (estado b = RESERVADO \<longleftrightarrow> 0 < tiempo_limite b)
                  \<and> (estado b \<noteq> RESERVADO \<longrightarrow> tiempo_limite b = 0)"
proof -
  let ?P = "\<lambda>t::tabla. \<forall>b\<in>set t. (estado b = RESERVADO \<longleftrightarrow> 0 < tiempo_limite b)
                  \<and> (estado b \<noteq> RESERVADO \<longrightarrow> tiempo_limite b = 0)"
  have "?P (snd (ejecutar evs tbl)) \<and> (\<forall>i<length evs. True)"
  proof (rule ejecutar_invariante
        [where P = ?P and Q = "\<lambda>e. \<forall>a u u2. e = Reservar a u u2 \<longrightarrow> 0 \<le> u2"
           and R = "\<lambda>e r. True"])
    show "?P tbl" by (rule inv)
    show "\<forall>e\<in>set evs. \<forall>a u u2. e = Reservar a u u2 \<longrightarrow> 0 \<le> u2"
      using clk by blast
    fix e t
    assume "?P t" and "\<forall>a u u2. e = Reservar a u u2 \<longrightarrow> 0 \<le> u2"
    then have "?P (snd (atender e t))"
      by (rule atender_limite)
    then show "?P (snd (atender e t)) \<and> True"
      by (intro conjI TrueI)
  qed
  then show ?thesis by (rule conjunct1)
qed

section \<open>The release of expired reservations\<close>

text \<open>
  Claim C3. For a row that is RESERVADO and any clock value \<open>ahora\<close>: the release
  turns it into DISPONIBLE with limit 0 when its limit is strictly below \<open>ahora\<close>,
  and leaves the whole row as it is when \<open>ahora\<close> is at most the limit; so after the
  release the row is DISPONIBLE with limit 0 exactly when the limit was strictly below
  \<open>ahora\<close>. Releasing twice with the same \<open>ahora\<close> gives the table of releasing once.
\<close>

theorem sweep_reserved_seat:
  assumes "i < length tbl" and "estado (tbl ! i) = RESERVADO"
  shows "(tiempo_limite (tbl ! i) < ahora \<longrightarrow>
            liberar_reservas_expiradas ahora tbl ! i =
              (tbl ! i)\<lparr>estado := DISPONIBLE, tiempo_limite := 0\<rparr>)
       \<and> (ahora \<le> tiempo_limite (tbl ! i) \<longrightarrow>
            liberar_reservas_expiradas ahora tbl ! i = tbl ! i)
       \<and> (estado (liberar_reservas_expiradas ahora tbl ! i) = DISPONIBLE
            \<and> tiempo_limite (liberar_reservas_expiradas ahora tbl ! i) = 0
          \<longleftrightarrow> tiempo_limite (tbl ! i) < ahora)
       \<and> liberar_reservas_expiradas ahora (liberar_reservas_expiradas ahora tbl) =
           liberar_reservas_expiradas ahora tbl"
  using assms
  by (auto simp: nth_liberar_reservas liberar_reservas_idem expirado_def liberar_def)

theorem sweep_reserved_seat_witness:
  "liberar_reservas_expiradas 41 tabla_ej ! 0 =
     (tabla_ej ! 0)\<lparr>estado := DISPONIBLE, tiempo_limite := 0\<rparr>
   \<and> liberar_reservas_expiradas 40 tabla_ej ! 0 = tabla_ej ! 0"
  using sweep_reserved_seat [of 0 tabla_ej 41] sweep_reserved_seat [of 0 tabla_ej 40]
  by (simp add: tabla_ej_def)

section \<open>Listing\<close>

text \<open>
  Claim C8. \<open>get_boletos\<close> releases over the whole table before it reads: the list it
  returns is the table after the call, row by row, and no row of that table is RESERVADO
  with a limit strictly below \<open>ahora\<close>; a row shown as RESERVADO was RESERVADO
  before the call, with a limit not below \<open>ahora\<close>, and is unchanged.
\<close>

theorem list_shows_no_stale_reservation:
  "\<exists>ds. fst (get_boletos ahora tbl) = Listado ds
       \<and> ds = map to_dict (snd (get_boletos ahora tbl))
       \<and> length ds = length tbl
       \<and> (\<forall>i<length tbl.
             snd (snd (ds ! i)) = RESERVADO \<longrightarrow>
               estado (tbl ! i) = RESERVADO \<and> \<not> tiempo_limite (tbl ! i) < ahora
               \<and> snd (get_boletos ahora tbl) ! i = tbl ! i)
       \<and> (\<forall>b\<in>set (snd (get_boletos ahora tbl)).
             \<not> (estado b = RESERVADO \<and> tiempo_limite b < ahora))"
  by (auto simp: get_boletos_def Let_def to_dict_def nth_liberar_reservas
      liberar_reservas_expiradas_def expirado_def liberar_def split: if_splits)

theorem list_shows_no_stale_reservation_witness:
  "fst (get_boletos 41 tabla_ej) =
     Listado [(1, ''A1'', DISPONIBLE), (2, ''A2'', DISPONIBLE), (3, ''A3'', VENDIDO),
              (4, ''A4'', DISPONIBLE)]
   \<and> fst (get_boletos 40 tabla_ej) =
     Listado [(1, ''A1'', RESERVADO), (2, ''A2'', DISPONIBLE), (3, ''A3'', VENDIDO),
              (4, ''A4'', DISPONIBLE)]"
  using list_shows_no_stale_reservation [of 41 tabla_ej]
    list_shows_no_stale_reservation [of 40 tabla_ej]
  by (simp add: tabla_ej_def get_boletos_def liberar_reservas_expiradas_def expirado_def
      liberar_def to_dict_def)

section \<open>Purchase\<close>

text \<open>
  Claim C5. A purchase of a seat that is RESERVADO, served at any clock value \<open>ahora\<close>
  (also one beyond the limit of the seat, when no release came in between), answers
  200 with VENDIDO and leaves the seat VENDIDO with limit 0; the clock value makes no
  difference to the outcome.
\<close>

theorem purchase_reserved:
  assumes "buscar a tbl = Some b" and "estado b = RESERVADO"
  shows "fst (atender (Comprar a ahora) tbl) = Exito VENDIDO
       \<and> buscar a (snd (atender (Comprar a ahora) tbl)) =
           Some (b\<lparr>estado := VENDIDO, tiempo_limite := 0\<rparr>)
       \<and> atender (Comprar a ahora) tbl = atender (Comprar a ahora') tbl"
  using assms buscar_Some_asiento [OF assms(1)]
  by (simp add: comprar_boleto_def buscar_actualizar)

theorem purchase_reserved_witness:
  "tiempo_limite (tabla_ej ! 1) < 100
   \<and> fst (atender (Comprar ''A2'' 100) tabla_ej) = Exito VENDIDO
   \<and> buscar ''A2'' (snd (atender (Comprar ''A2'' 100) tabla_ej)) =
       Some \<lparr>id_boleto = 2, asiento = ''A2'', estado = VENDIDO, tiempo_limite = 0\<rparr>"
  using purchase_reserved [of "''A2''" tabla_ej "tabla_ej ! 1" 100 100]
  by (simp add: tabla_ej_def buscar_def)

text \<open>
  Claim C10. A purchase keeps the length of the table and every row whose name is
  not the requested one, in every outcome; when it answers 409 or 404 the whole table
  is the one before the call. So it releases nothing.
\<close>

theorem purchase_frame:
  "length (snd (comprar_boleto a tbl)) = length tbl
   \<and> (\<forall>i<length tbl. asiento (tbl ! i) \<noteq> a \<longrightarrow> snd (comprar_boleto a tbl) ! i = tbl ! i)
   \<and> ((\<exists>e. fst (comprar_boleto a tbl) = Conflicto e) \<or> fst (comprar_boleto a tbl) = NoEncontrado
        \<longrightarrow> snd (comprar_boleto a tbl) = tbl)"
  by (auto simp: comprar_boleto_def nth_actualizar_otro split: option.splits)

theorem purchase_frame_witness:
  "snd (comprar_boleto ''A2'' tabla_ej) ! 0 = tabla_ej ! 0
   \<and> snd (comprar_boleto ''A3'' tabla_ej) = tabla_ej
   \<and> snd (comprar_boleto ''Z99'' tabla_ej) = tabla_ej"
  using purchase_frame [of "''A2''" tabla_ej] purchase_frame [of "''A3''" tabla_ej]
    purchase_frame [of "''Z99''" tabla_ej]
  by (simp add: tabla_ej_def comprar_boleto_def buscar_def)

section \<open>Unknown seats\<close>

text \<open>
  Claim C9. For a name that no row of the table carries, reservation and purchase both
  answer 404, whatever the rows are and whatever the clock says.
\<close>

theorem unknown_label_not_found:
  assumes "a \<notin> asiento ` set tbl"
  shows "fst (reservar_boleto a ahora ahora2 tbl) = NoEncontrado
       \<and> fst (comprar_boleto a tbl) = NoEncontrado
       \<and> codigo (fst (reservar_boleto a ahora ahora2 tbl)) = 404
       \<and> codigo (fst (comprar_boleto a tbl)) = 404"
proof -
  from assms have n: "buscar a tbl = None"
    by (simp add: buscar_None_iff)
  then have "buscar a (liberar_reservas_expiradas ahora tbl) = None"
    by (simp add: buscar_liberar_reservas)
  with n show ?thesis
    by (simp add: reservar_boleto_def comprar_boleto_def)
qed

theorem unknown_label_not_found_witness:
  "fst (reservar_boleto ''Z99'' 41 41 tabla_ej) = NoEncontrado
   \<and> fst (comprar_boleto ''Z99'' tabla_ej) = NoEncontrado"
  using unknown_label_not_found [of "''Z99''" tabla_ej 41 41]
  by (simp add: tabla_ej_def)

section \<open>Reservation and the other seats\<close>

text \<open>
  Claim C7, as stated, fails: the release inside \<open>reservar_boleto\<close> runs over the whole
  table. Reserving A4 at time 41 releases the expired reservation of A2.
\<close>

theorem reserve_releases_other_seats:
  "asiento (tabla_ej ! 1) \<noteq> ''A4''
   \<and> snd (reservar_boleto ''A4'' 41 41 tabla_ej) ! 1 \<noteq> tabla_ej ! 1"
  by (simp add: tabla_ej_def reservar_boleto_def liberar_reservas_expiradas_def expirado_def
      liberar_def buscar_def)

text \<open>
  Claim C7, amended. A reservation keeps the length of the table, and a row whose name
  is not the requested one comes out as the release at \<open>ahora\<close> leaves it: DISPONIBLE
  with limit 0 when it was RESERVADO with a limit strictly below \<open>ahora\<close>, unchanged
  otherwise.
\<close>

theorem reserve_frame:
  assumes "i < length tbl" and "asiento (tbl ! i) \<noteq> a"
  shows "length (snd (reservar_boleto a ahora ahora2 tbl)) = length tbl
       \<and> snd (reservar_boleto a ahora ahora2 tbl) ! i =
           (if estado (tbl ! i) = RESERVADO \<and> tiempo_limite (tbl ! i) < ahora
            then (tbl ! i)\<lparr>estado := DISPONIBLE, tiempo_limite := 0\<rparr> else tbl ! i)"
  using assms
  by (auto simp: reservar_boleto_def Let_def nth_actualizar_otro nth_liberar_reservas
      expirado_def liberar_def split: option.splits)

theorem reserve_frame_witness:
  "snd (reservar_boleto ''A4'' 41 41 tabla_ej) ! 1 =
     \<lparr>id_boleto = 2, asiento = ''A2'', estado = DISPONIBLE, tiempo_limite = 0\<rparr>
   \<and> snd (reservar_boleto ''A4'' 41 41 tabla_ej) ! 2 = tabla_ej ! 2"
  using reserve_frame [of 1 tabla_ej "''A4''" 41 41] reserve_frame [of 2 tabla_ej "''A4''" 41 41]
  by (simp add: tabla_ej_def)

section \<open>Which endpoints release first\<close>

text \<open>
  Claim C6, as stated, fails for the purchase: \<open>comprar_boleto\<close> does not release
  before it acts. A2 is RESERVADO with limit 5; a purchase served at time 41 sells it,
  while the same purchase on the table released at 41 answers 409 with DISPONIBLE.
\<close>

theorem purchase_does_not_release:
  "expirado 41 (tabla_ej ! 1)
   \<and> atender (Comprar ''A2'' 41) tabla_ej \<noteq>
       atender (Comprar ''A2'' 41) (liberar_reservas_expiradas 41 tabla_ej)
   \<and> fst (atender (Comprar ''A2'' 41) tabla_ej) = Exito VENDIDO
   \<and> fst (atender (Comprar ''A2'' 41) (liberar_reservas_expiradas 41 tabla_ej)) =
       Conflicto DISPONIBLE"
  by (simp add: tabla_ej_def comprar_boleto_def liberar_reservas_expiradas_def expirado_def
      liberar_def buscar_def)

text \<open>
  Claim C6, amended. Listing and reservation release expired reservations over the
  whole table before they act: serving either on the table already released at
  \<open>ahora\<close> gives the same answer and the same table; after a listing every row that
  was expired is released; and a reservation of a seat whose hold has expired succeeds,
  with the new limit. The purchase does not release: a seat whose hold has expired
  and that no release has touched is sold.
\<close>

theorem release_before_list_and_reserve:
  "atender (Listar ahora) tbl = atender (Listar ahora) (liberar_reservas_expiradas ahora tbl)
   \<and> atender (Reservar a ahora ahora2) tbl =
       atender (Reservar a ahora ahora2) (liberar_reservas_expiradas ahora tbl)
   \<and> (\<forall>i<length tbl. expirado ahora (tbl ! i) \<longrightarrow>
         snd (atender (Listar ahora) tbl) ! i = liberar (tbl ! i))
   \<and> (\<forall>b. buscar a tbl = Some b \<and> expirado ahora b \<longrightarrow>
         fst (atender (Reservar a ahora ahora2) tbl) = Exito RESERVADO
         \<and> buscar a (snd (atender (Reservar a ahora ahora2) tbl)) =
             Some (b\<lparr>estado := RESERVADO, tiempo_limite := ahora2 + 30\<rparr>))
   \<and> (\<forall>b. buscar a tbl = Some b \<and> expirado ahora b \<longrightarrow>
         fst (atender (Comprar a ahora) tbl) = Exito VENDIDO)"
proof (intro conjI allI impI)
  show "atender (Listar ahora) tbl = atender (Listar ahora) (liberar_reservas_expiradas ahora tbl)"
    by (simp add: get_boletos_liberado)
  show "atender (Reservar a ahora ahora2) tbl =
       atender (Reservar a ahora ahora2) (liberar_reservas_expiradas ahora tbl)"
    by (simp add: reservar_liberado)
  show "snd (atender (Listar ahora) tbl) ! i = liberar (tbl ! i)"
    if "i < length tbl" "expirado ahora (tbl ! i)" for i
    using that by (simp add: get_boletos_def Let_def nth_liberar_reservas)
next
  fix b assume h: "buscar a tbl = Some b \<and> expirado ahora b"
  then have a: "asiento b = a" by (auto dest: buscar_Some_asiento)
  from h have l: "buscar a (liberar_reservas_expiradas ahora tbl) = Some (liberar b)"
    by (simp add: buscar_liberar_reservas)
  show "fst (atender (Reservar a ahora ahora2) tbl) = Exito RESERVADO"
    using l by (simp add: reservar_boleto_def liberar_def)
  show "buscar a (snd (atender (Reservar a ahora ahora2) tbl)) =
             Some (b\<lparr>estado := RESERVADO, tiempo_limite := ahora2 + 30\<rparr>)"
    using l a by (simp add: reservar_boleto_def buscar_actualizar RESERVA_DURACION_SEGUNDOS_def liberar_def)
next
  fix b assume h: "buscar a tbl = Some b \<and> expirado ahora b"
  then show "fst (atender (Comprar a ahora) tbl) = Exito VENDIDO"
    by (simp add: comprar_boleto_def expirado_def)
qed

theorem release_before_list_and_reserve_witness:
  "snd (atender (Listar 41) tabla_ej) ! 1 =
     \<lparr>id_boleto = 2, asiento = ''A2'', estado = DISPONIBLE, tiempo_limite = 0\<rparr>
   \<and> fst (atender (Reservar ''A2'' 41 41) tabla_ej) = Exito RESERVADO
   \<and> buscar ''A2'' (snd (atender (Reservar ''A2'' 41 41) tabla_ej)) =
       Some \<lparr>id_boleto = 2, asiento = ''A2'', estado = RESERVADO, tiempo_limite = 71\<rparr>
   \<and> fst (atender (Comprar ''A2'' 41) tabla_ej) = Exito VENDIDO"
proof -
  note t = release_before_list_and_reserve [of 41 tabla_ej "''A2''" 41]
  have r: "tabla_ej ! 1 =
      \<lparr>id_boleto = 2, asiento = ''A2'', estado = RESERVADO, tiempo_limite = 5\<rparr>"
    by (simp add: tabla_ej_def)
  have e: "buscar ''A2'' tabla_ej = Some (tabla_ej ! 1)" "expirado 41 (tabla_ej ! 1)"
    "1 < length tabla_ej"
    by (simp_all add: tabla_ej_def buscar_def expirado_def)
  from t e have "snd (atender (Listar 41) tabla_ej) ! 1 = liberar (tabla_ej ! 1)"
    by blast
  moreover from t e have "fst (atender (Reservar ''A2'' 41 41) tabla_ej) = Exito RESERVADO
      \<and> buscar ''A2'' (snd (atender (Reservar ''A2'' 41 41) tabla_ej)) =
          Some ((tabla_ej ! 1)\<lparr>estado := RESERVADO, tiempo_limite := 41 + 30\<rparr>)"
    by blast
  moreover from t e have "fst (atender (Comprar ''A2'' 41) tabla_ej) = Exito VENDIDO"
    by blast
  ultimately show ?thesis
    unfolding r by (simp add: liberar_def)
qed

section \<open>Reserving a free seat\<close>

text \<open>
  Claim C1. For a seat that is DISPONIBLE, a reservation served with the clock reading
  \<open>T2\<close> at the computation of the limit (\<open>T\<close> at the release; the spec has one time
  for both) answers 200 with RESERVADO and leaves the seat RESERVADO with limit
  \<open>T2 + 30\<close>. A later reservation of the same seat whose release runs at a time
  strictly before that limit answers 409 with RESERVADO and leaves the seat as it is;
  the same holds for every such reservation in a run of requests served before the
  limit in which the seat is not bought.
\<close>

theorem reserve_available_then_conflict:
  assumes "buscar a tbl = Some b" and "estado b = DISPONIBLE"
  shows "fst (reservar_boleto a T T2 tbl) = Exito RESERVADO
       \<and> buscar a (snd (reservar_boleto a T T2 tbl)) =
           Some (b\<lparr>estado := RESERVADO, tiempo_limite := T2 + RESERVA_DURACION_SEGUNDOS\<rparr>)
       \<and> RESERVA_DURACION_SEGUNDOS = 30
       \<and> (\<forall>u u2. u < T2 + RESERVA_DURACION_SEGUNDOS \<longrightarrow>
            fst (reservar_boleto a u u2 (snd (reservar_boleto a T T2 tbl))) = Conflicto RESERVADO
            \<and> buscar a (snd (reservar_boleto a u u2 (snd (reservar_boleto a T T2 tbl)))) =
                buscar a (snd (reservar_boleto a T T2 tbl)))
       \<and> (\<forall>evs. (\<forall>e\<in>set evs. hora e < T2 + RESERVA_DURACION_SEGUNDOS \<and> (\<forall>u. e \<noteq> Comprar a u)) \<longrightarrow>
            buscar a (snd (ejecutar evs (snd (reservar_boleto a T T2 tbl)))) =
              buscar a (snd (reservar_boleto a T T2 tbl))
            \<and> (\<forall>i<length evs. (\<exists>u u2. evs ! i = Reservar a u u2) \<longrightarrow>
                  fst (ejecutar evs (snd (reservar_boleto a T T2 tbl))) ! i = Conflicto RESERVADO))"
proof -
  let ?t = "snd (reservar_boleto a T T2 tbl)"
  let ?b = "b\<lparr>estado := RESERVADO, tiempo_limite := T2 + 30\<rparr>"
  have f: "fst (reservar_boleto a T T2 tbl) = Exito RESERVADO"
    and s: "buscar a ?t = Some ?b"
    using reservar_disponible [OF assms] by auto
  have one: "fst (reservar_boleto a u u2 ?t) = Conflicto RESERVADO
        \<and> buscar a (snd (reservar_boleto a u u2 ?t)) = buscar a ?t"
    if "u < T2 + 30" for u u2
    using atender_reservado [of a ?t ?b "Reservar a u u2"] s that by simp
  have many: "buscar a (snd (ejecutar evs ?t)) = buscar a ?t
        \<and> (\<forall>i<length evs. (\<exists>u u2. evs ! i = Reservar a u u2) \<longrightarrow>
              fst (ejecutar evs ?t) ! i = Conflicto RESERVADO)"
    if q: "\<forall>e\<in>set evs. hora e < T2 + 30 \<and> (\<forall>u. e \<noteq> Comprar a u)" for evs
  proof -
    have "buscar a (snd (ejecutar evs ?t)) = Some ?b
        \<and> (\<forall>i<length evs. (\<exists>u u2. evs ! i = Reservar a u u2) \<longrightarrow>
              fst (ejecutar evs ?t) ! i = Conflicto RESERVADO)"
    proof (rule ejecutar_invariante
        [where P = "\<lambda>t. buscar a t = Some ?b"
           and Q = "\<lambda>e. hora e < T2 + 30 \<and> (\<forall>u. e \<noteq> Comprar a u)"
           and R = "\<lambda>e r. (\<exists>u u2. e = Reservar a u u2) \<longrightarrow> r = Conflicto RESERVADO"])
      show "buscar a ?t = Some ?b" by (rule s)
      show "\<forall>e\<in>set evs. hora e < T2 + 30 \<and> (\<forall>u. e \<noteq> Comprar a u)" by (rule q)
      fix e t
      assume "buscar a t = Some ?b" and "hora e < T2 + 30 \<and> (\<forall>u. e \<noteq> Comprar a u)"
      then show "buscar a (snd (atender e t)) = Some ?b
          \<and> ((\<exists>u u2. e = Reservar a u u2) \<longrightarrow> fst (atender e t) = Conflicto RESERVADO)"
        using atender_reservado [of a t ?b e] by simp
    qed
    with s show ?thesis by simp
  qed
  from f s one many show ?thesis
    by (simp add: RESERVA_DURACION_SEGUNDOS_def)
qed

theorem reserve_available_then_conflict_witness:
  "fst (reservar_boleto ''A4'' 0 0 tabla_ej) = Exito RESERVADO
   \<and> buscar ''A4'' (snd (reservar_boleto ''A4'' 0 0 tabla_ej)) =
       Some \<lparr>id_boleto = 4, asiento = ''A4'', estado = RESERVADO, tiempo_limite = 30\<rparr>
   \<and> fst (reservar_boleto ''A4'' 29 29 (snd (reservar_boleto ''A4'' 0 0 tabla_ej))) =
       Conflicto RESERVADO
   \<and> buscar ''A4'' (snd (reservar_boleto ''A4'' 29 29 (snd (reservar_boleto ''A4'' 0 0 tabla_ej)))) =
       Some \<lparr>id_boleto = 4, asiento = ''A4'', estado = RESERVADO, tiempo_limite = 30\<rparr>"
proof -
  have s: "buscar ''A4'' tabla_ej = Some (tabla_ej ! 3)" "estado (tabla_ej ! 3) = DISPONIBLE"
    by (simp_all add: tabla_ej_def buscar_def)
  have r: "tabla_ej ! 3 =
      \<lparr>id_boleto = 4, asiento = ''A4'', estado = DISPONIBLE, tiempo_limite = 0\<rparr>"
    by (simp add: tabla_ej_def)
  note t = reserve_available_then_conflict [OF s, of 0 0]
  from t have "fst (reservar_boleto ''A4'' 0 0 tabla_ej) = Exito RESERVADO"
    by blast
  moreover from t have b: "buscar ''A4'' (snd (reservar_boleto ''A4'' 0 0 tabla_ej)) =
       Some ((tabla_ej ! 3)\<lparr>estado := RESERVADO, tiempo_limite := 0 + RESERVA_DURACION_SEGUNDOS\<rparr>)"
    by blast
  moreover from t have "(29::int) < 0 + RESERVA_DURACION_SEGUNDOS \<longrightarrow>
      fst (reservar_boleto ''A4'' 29 29 (snd (reservar_boleto ''A4'' 0 0 tabla_ej))) =
         Conflicto RESERVADO
      \<and> buscar ''A4'' (snd (reservar_boleto ''A4'' 29 29 (snd (reservar_boleto ''A4'' 0 0 tabla_ej)))) =
         buscar ''A4'' (snd (reservar_boleto ''A4'' 0 0 tabla_ej))"
    by blast
  ultimately show ?thesis
    unfolding r by (simp add: RESERVA_DURACION_SEGUNDOS_def)
qed

section \<open>Sold seats\<close>

text \<open>
  Claim C4. A purchase that answers 200 leaves the seat VENDIDO with limit 0. From a
  table in which a seat is VENDIDO, after any run of requests the seat is found
  unchanged, and every reservation and every purchase of it in the run answers 409
  with VENDIDO; every row that is VENDIDO is the same row after any run.
\<close>

theorem sold_is_absorbing:
  "(\<forall>s. fst (comprar_boleto a tbl0) = Exito s \<longrightarrow>
        s = VENDIDO \<and> (\<exists>b. buscar a (snd (comprar_boleto a tbl0)) = Some b
           \<and> estado b = VENDIDO \<and> tiempo_limite b = 0))
   \<and> (\<forall>b evs. buscar a tbl = Some b \<and> estado b = VENDIDO \<longrightarrow>
        buscar a (snd (ejecutar evs tbl)) = Some b
        \<and> (\<forall>i<length evs. (\<exists>u u2. evs ! i = Reservar a u u2) \<or> (\<exists>u. evs ! i = Comprar a u) \<longrightarrow>
              fst (ejecutar evs tbl) ! i = Conflicto VENDIDO))
   \<and> (\<forall>i evs. i < length tbl \<and> estado (tbl ! i) = VENDIDO \<longrightarrow>
        snd (ejecutar evs tbl) ! i = tbl ! i)"
proof -
  have p1: "s = VENDIDO \<and> (\<exists>b. buscar a (snd (comprar_boleto a tbl0)) = Some b
           \<and> estado b = VENDIDO \<and> tiempo_limite b = 0)"
    if "fst (comprar_boleto a tbl0) = Exito s" for s
    using that by (rule comprar_exito)
  have p2: "buscar a (snd (ejecutar evs tbl)) = Some b
        \<and> (\<forall>i<length evs. (\<exists>u u2. evs ! i = Reservar a u u2) \<or> (\<exists>u. evs ! i = Comprar a u) \<longrightarrow>
              fst (ejecutar evs tbl) ! i = Conflicto VENDIDO)"
    if h: "buscar a tbl = Some b \<and> estado b = VENDIDO" for b evs
  proof -
    have "(buscar a (snd (ejecutar evs tbl)) = Some b \<and> estado b = VENDIDO)
        \<and> (\<forall>i<length evs. (\<exists>u u2. evs ! i = Reservar a u u2) \<or> (\<exists>u. evs ! i = Comprar a u) \<longrightarrow>
              fst (ejecutar evs tbl) ! i = Conflicto VENDIDO)"
    proof (rule ejecutar_invariante
        [where P = "\<lambda>t. buscar a t = Some b \<and> estado b = VENDIDO"
           and Q = "\<lambda>e. True"
           and R = "\<lambda>e r. (\<exists>u u2. e = Reservar a u u2) \<or> (\<exists>u. e = Comprar a u) \<longrightarrow>
                      r = Conflicto VENDIDO"])
      show "buscar a tbl = Some b \<and> estado b = VENDIDO" by (rule h)
      show "\<forall>e\<in>set evs. True" by simp
      fix e t
      assume "buscar a t = Some b \<and> estado b = VENDIDO"
      then show "(buscar a (snd (atender e t)) = Some b \<and> estado b = VENDIDO)
          \<and> ((\<exists>u u2. e = Reservar a u u2) \<or> (\<exists>u. e = Comprar a u) \<longrightarrow>
                fst (atender e t) = Conflicto VENDIDO)"
        using atender_vendido [of a t b e] by simp
    qed
    then show ?thesis by simp
  qed
  have p3: "snd (ejecutar evs tbl) ! i = tbl ! i"
    if h: "i < length tbl \<and> estado (tbl ! i) = VENDIDO" for i evs
  proof -
    have "(length (snd (ejecutar evs tbl)) = length tbl \<and> snd (ejecutar evs tbl) ! i = tbl ! i)
        \<and> (\<forall>k<length evs. True)"
    proof (rule ejecutar_invariante
        [where P = "\<lambda>t. length t = length tbl \<and> t ! i = tbl ! i"
           and Q = "\<lambda>e. True" and R = "\<lambda>e r. True"])
      show "length tbl = length tbl \<and> tbl ! i = tbl ! i" by simp
      show "\<forall>e\<in>set evs. True" by simp
      fix e t
      assume "length t = length tbl \<and> t ! i = tbl ! i"
      with h show "(length (snd (atender e t)) = length tbl \<and> snd (atender e t) ! i = tbl ! i)
          \<and> True"
        using atender_fila_vendida [of i t e] by simp
    qed
    then show ?thesis by simp
  qed
  show ?thesis
  proof (intro conjI)
    show "\<forall>s. fst (comprar_boleto a tbl0) = Exito s \<longrightarrow>
        s = VENDIDO \<and> (\<exists>b. buscar a (snd (comprar_boleto a tbl0)) = Some b
           \<and> estado b = VENDIDO \<and> tiempo_limite b = 0)"
      using p1 by blast
    show "\<forall>b evs. buscar a tbl = Some b \<and> estado b = VENDIDO \<longrightarrow>
        buscar a (snd (ejecutar evs tbl)) = Some b
        \<and> (\<forall>i<length evs. (\<exists>u u2. evs ! i = Reservar a u u2) \<or> (\<exists>u. evs ! i = Comprar a u) \<longrightarrow>
              fst (ejecutar evs tbl) ! i = Conflicto VENDIDO)"
      using p2 by blast
    show "\<forall>i evs. i < length tbl \<and> estado (tbl ! i) = VENDIDO \<longrightarrow>
        snd (ejecutar evs tbl) ! i = tbl ! i"
      using p3 by blast
  qed
qed

theorem sold_is_absorbing_witness:
  "fst (comprar_boleto ''A2'' tabla_ej) = Exito VENDIDO
   \<and> buscar ''A2'' (snd (comprar_boleto ''A2'' tabla_ej)) =
       Some \<lparr>id_boleto = 2, asiento = ''A2'', estado = VENDIDO, tiempo_limite = 0\<rparr>
   \<and> buscar ''A3'' (snd (ejecutar [Reservar ''A3'' 41 41, Comprar ''A3'' 50, Listar 60] tabla_ej)) =
       Some \<lparr>id_boleto = 3, asiento = ''A3'', estado = VENDIDO, tiempo_limite = 0\<rparr>
   \<and> fst (ejecutar [Reservar ''A3'' 41 41, Comprar ''A3'' 50, Listar 60] tabla_ej) ! 0 =
       Conflicto VENDIDO
   \<and> fst (ejecutar [Reservar ''A3'' 41 41, Comprar ''A3'' 50, Listar 60] tabla_ej) ! 1 =
       Conflicto VENDIDO
   \<and> snd (ejecutar [Reservar ''A3'' 41 41, Comprar ''A3'' 50, Listar 60] tabla_ej) ! 2 =
       tabla_ej ! 2"
proof -
  let ?evs = "[Reservar ''A3'' 41 41, Comprar ''A3'' 50, Listar 60]"
  let ?v = "\<lparr>id_boleto = 3, asiento = ''A3'', estado = VENDIDO, tiempo_limite = 0\<rparr>"
  note t2 = sold_is_absorbing [of "''A2''" tabla_ej tabla_ej]
  note t3 = sold_is_absorbing [of "''A3''" tabla_ej tabla_ej]
  have e: "fst (comprar_boleto ''A2'' tabla_ej) = Exito VENDIDO"
    by (simp add: tabla_ej_def comprar_boleto_def buscar_def)
  have b2: "buscar ''A2'' (snd (comprar_boleto ''A2'' tabla_ej)) =
       Some \<lparr>id_boleto = 2, asiento = ''A2'', estado = VENDIDO, tiempo_limite = 0\<rparr>"
    by (simp add: tabla_ej_def comprar_boleto_def buscar_def)
  from t2 e have "\<exists>b. buscar ''A2'' (snd (comprar_boleto ''A2'' tabla_ej)) = Some b
      \<and> estado b = VENDIDO \<and> tiempo_limite b = 0"
    by blast
  have s: "buscar ''A3'' tabla_ej = Some ?v \<and> estado ?v = VENDIDO"
    by (simp add: tabla_ej_def buscar_def)
  have k: "2 < length tabla_ej \<and> estado (tabla_ej ! 2) = VENDIDO"
    by (simp add: tabla_ej_def)
  from t3 s have r: "buscar ''A3'' (snd (ejecutar ?evs tabla_ej)) = Some ?v
      \<and> (\<forall>i<length ?evs. (\<exists>u u2. ?evs ! i = Reservar ''A3'' u u2) \<or> (\<exists>u. ?evs ! i = Comprar ''A3'' u) \<longrightarrow>
              fst (ejecutar ?evs tabla_ej) ! i = Conflicto VENDIDO)"
    by blast
  from r have r0: "fst (ejecutar ?evs tabla_ej) ! 0 = Conflicto VENDIDO"
    by (elim conjE allE [of _ 0]) simp
  from r have r1: "fst (ejecutar ?evs tabla_ej) ! 1 = Conflicto VENDIDO"
    by (elim conjE allE [of _ 1]) simp
  from t3 k have r2: "snd (ejecutar ?evs tabla_ej) ! 2 = tabla_ej ! 2"
    by blast
  from e b2 r r0 r1 r2 show ?thesis by blast
qed

section \<open>The limit is set exactly on reserved seats\<close>

text \<open>
  Claim C2. After every run of requests (listing, reservation, purchase, each with
  its release), every seat is RESERVADO if and only if its limit is strictly positive,
  and a seat that is DISPONIBLE or VENDIDO has limit 0. This holds from the initial
  inventory, and from every table that satisfies it. The clock readings used for the
  limit are UNIX time stamps, so not negative: a reading of \<open>-30\<close> would give a
  reserved seat the limit 0.
\<close>

theorem hold_deadline_invariant:
  assumes "\<forall>a u u2. Reservar a u u2 \<in> set evs \<longrightarrow> 0 \<le> u2"
  shows "(\<forall>b\<in>set (snd (ejecutar evs inventario_inicial)).
            (estado b = RESERVADO \<longleftrightarrow> 0 < tiempo_limite b)
            \<and> (estado b \<noteq> RESERVADO \<longrightarrow> tiempo_limite b = 0))
       \<and> ((\<forall>b\<in>set tbl. (estado b = RESERVADO \<longleftrightarrow> 0 < tiempo_limite b)
                  \<and> (estado b \<noteq> RESERVADO \<longrightarrow> tiempo_limite b = 0)) \<longrightarrow>
          (\<forall>b\<in>set (snd (ejecutar evs tbl)).
            (estado b = RESERVADO \<longleftrightarrow> 0 < tiempo_limite b)
            \<and> (estado b \<noteq> RESERVADO \<longrightarrow> tiempo_limite b = 0)))"
proof (intro conjI impI)
  have "\<forall>b\<in>set inventario_inicial. (estado b = RESERVADO \<longleftrightarrow> 0 < tiempo_limite b)
                  \<and> (estado b \<noteq> RESERVADO \<longrightarrow> tiempo_limite b = 0)"
  proof
    fix b assume "b \<in> set inventario_inicial"
    then have "estado b = DISPONIBLE \<and> tiempo_limite b = 0"
      by (rule inventario_inicial_limite)
    then show "(estado b = RESERVADO \<longleftrightarrow> 0 < tiempo_limite b)
                  \<and> (estado b \<noteq> RESERVADO \<longrightarrow> tiempo_limite b = 0)"
      by simp
  qed
  then show "\<forall>b\<in>set (snd (ejecutar evs inventario_inicial)).
            (estado b = RESERVADO \<longleftrightarrow> 0 < tiempo_limite b)
            \<and> (estado b \<noteq> RESERVADO \<longrightarrow> tiempo_limite b = 0)"
    using assms by (rule ejecutar_limite)
next
  assume "\<forall>b\<in>set tbl. (estado b = RESERVADO \<longleftrightarrow> 0 < tiempo_limite b)
                  \<and> (estado b \<noteq> RESERVADO \<longrightarrow> tiempo_limite b = 0)"
  then show "\<forall>b\<in>set (snd (ejecutar evs tbl)).
            (estado b = RESERVADO \<longleftrightarrow> 0 < tiempo_limite b)
            \<and> (estado b \<noteq> RESERVADO \<longrightarrow> tiempo_limite b = 0)"
    using assms by (rule ejecutar_limite)
qed

theorem hold_deadline_invariant_witness:
  "list_all (\<lambda>b. (estado b = RESERVADO) = (0 < tiempo_limite b)
                  \<and> (estado b = RESERVADO \<or> tiempo_limite b = 0)) tabla_ej
   \<and> list_all (\<lambda>b. (estado b = RESERVADO) = (0 < tiempo_limite b)
                  \<and> (estado b = RESERVADO \<or> tiempo_limite b = 0))
        (snd (ejecutar [Reservar ''A4'' 0 0, Comprar ''A4'' 10, Listar 41] tabla_ej))"
proof -
  have c: "\<forall>a u u2. Reservar a u u2 \<in> set [Reservar ''A4'' 0 0, Comprar ''A4'' 10, Listar 41]
      \<longrightarrow> 0 \<le> u2"
    by simp
  have i: "\<forall>b\<in>set tabla_ej. (estado b = RESERVADO \<longleftrightarrow> 0 < tiempo_limite b)
                  \<and> (estado b \<noteq> RESERVADO \<longrightarrow> tiempo_limite b = 0)"
    by (simp add: tabla_ej_def)
  from hold_deadline_invariant [OF c, of tabla_ej] i
  have "\<forall>b\<in>set (snd (ejecutar [Reservar ''A4'' 0 0, Comprar ''A4'' 10, Listar 41] tabla_ej)).
            (estado b = RESERVADO \<longleftrightarrow> 0 < tiempo_limite b)
            \<and> (estado b \<noteq> RESERVADO \<longrightarrow> tiempo_limite b = 0)"
    by (elim conjE impE)
  with i show ?thesis
    unfolding list_all_iff by blast
qed

end
